theory Spec2Isabelle
  imports Complex_Main
begin

section \<open>JavaScript numbers\<close>

text \<open>
  A JavaScript number is an IEEE double. The model keeps the three special values that
  the code can produce (\<open>NaN\<close>, \<open>Infinity\<close>, \<open>-Infinity\<close>) and treats every finite
  value as a real: rounding and the sign of zero are not modelled.
\<close>

datatype jsnum = Fin real | PosInf | NegInf | NaN

fun js_add :: "jsnum \<Rightarrow> jsnum \<Rightarrow> jsnum" where
  "js_add NaN _ = NaN"
| "js_add _ NaN = NaN"
| "js_add (Fin a) (Fin b) = Fin (a + b)"
| "js_add PosInf NegInf = NaN"
| "js_add NegInf PosInf = NaN"
| "js_add PosInf _ = PosInf"
| "js_add NegInf _ = NegInf"
| "js_add (Fin a) b = b"

fun js_neg :: "jsnum \<Rightarrow> jsnum" where
  "js_neg (Fin a) = Fin (- a)"
| "js_neg PosInf = NegInf"
| "js_neg NegInf = PosInf"
| "js_neg NaN = NaN"

definition js_sub :: "jsnum \<Rightarrow> jsnum \<Rightarrow> jsnum" where
  "js_sub a b = js_add a (js_neg b)"

fun js_div :: "jsnum \<Rightarrow> jsnum \<Rightarrow> jsnum" where
  "js_div NaN _ = NaN"
| "js_div _ NaN = NaN"
| "js_div (Fin a) (Fin b) =
     (if b \<noteq> 0 then Fin (a / b)
      else if a = 0 then NaN
      else if 0 < a then PosInf else NegInf)"
| "js_div (Fin a) _ = Fin 0"
| "js_div PosInf (Fin b) = (if 0 \<le> b then PosInf else NegInf)"
| "js_div NegInf (Fin b) = (if 0 \<le> b then NegInf else PosInf)"
| "js_div _ _ = NaN"

text \<open>\<open>Math.max(a, b)\<close> and \<open>Math.min(a, b)\<close>: \<open>NaN\<close> if either argument is.\<close>

fun js_max :: "jsnum \<Rightarrow> jsnum \<Rightarrow> jsnum" where
  "js_max NaN _ = NaN"
| "js_max _ NaN = NaN"
| "js_max PosInf _ = PosInf"
| "js_max _ PosInf = PosInf"
| "js_max NegInf b = b"
| "js_max a NegInf = a"
| "js_max (Fin a) (Fin b) = Fin (max a b)"

fun js_min :: "jsnum \<Rightarrow> jsnum \<Rightarrow> jsnum" where
  "js_min NaN _ = NaN"
| "js_min _ NaN = NaN"
| "js_min NegInf _ = NegInf"
| "js_min _ NegInf = NegInf"
| "js_min PosInf b = b"
| "js_min a PosInf = a"
| "js_min (Fin a) (Fin b) = Fin (min a b)"

text \<open>
  \<open>Math.max(...xs)\<close> and \<open>Math.min(...xs)\<close>: with no argument they are
  \<open>-Infinity\<close> and \<open>Infinity\<close>.
\<close>

definition Math_max :: "jsnum list \<Rightarrow> jsnum" where
  "Math_max xs = foldl js_max NegInf xs"

definition Math_min :: "jsnum list \<Rightarrow> jsnum" where
  "Math_min xs = foldl js_min PosInf xs"

text \<open>A \<open>Date\<close> is its number of milliseconds since the epoch.\<close>

type_synonym date = int

section \<open>JavaScript values, errors and built-in conversions\<close>

text \<open>
  The values that the export functions receive as untyped arguments. An object is the list
  of its own properties, in insertion order.
\<close>

datatype jsval =
    Undefined
  | Null
  | Bool bool
  | Num jsnum
  | Str string
  | DateV date
  | Arr "jsval list"
  | Obj "(string \<times> jsval) list"

text \<open>A thrown value: its kind and its \<open>message\<close>.\<close>

datatype js_error = TypeError string | Error string

fun message :: "js_error \<Rightarrow> string" where
  "message (TypeError m) = m"
| "message (Error m) = m"

text \<open>Truthiness, as \<open>if (v)\<close> and \<open>v ? a : b\<close> test it.\<close>

fun is_truthy :: "jsval \<Rightarrow> bool" where
  "is_truthy Undefined = False"
| "is_truthy Null = False"
| "is_truthy (Bool b) = b"
| "is_truthy (Num NaN) = False"
| "is_truthy (Num (Fin x)) = (x \<noteq> 0)"
| "is_truthy (Num _) = True"
| "is_truthy (Str s) = (s \<noteq> [])"
| "is_truthy _ = True"

text \<open>
  Reading the property \<open>k\<close> of a value: a \<open>TypeError\<close> on \<open>undefined\<close> and
  \<open>null\<close>, the property or \<open>undefined\<close> on an object, \<open>undefined\<close> on the
  other values (no method or \<open>length\<close> is read this way in the model).
\<close>

fun get_prop :: "jsval \<Rightarrow> string \<Rightarrow> js_error + jsval" where
  "get_prop Undefined k = Inl (TypeError (''Cannot read properties of undefined (reading '' @ k @ '')''))"
| "get_prop Null k = Inl (TypeError (''Cannot read properties of null (reading '' @ k @ '')''))"
| "get_prop (Obj ps) k = Inr (case map_of ps k of None \<Rightarrow> Undefined | Some v \<Rightarrow> v)"
| "get_prop _ k = Inr Undefined"

text \<open>
  The built-in conversions that the code calls and the model leaves open:
  \<open>x.toFixed(2)\<close> on a number, \<open>d.toISOString()\<close> and the string of a \<open>Date\<close> in a
  template, and the string and the number that a template and a division make of any
  value.
\<close>

record builtins =
  toFixed2 :: "jsnum \<Rightarrow> string"
  toISOString :: "date \<Rightarrow> string"
  Date_toString :: "date \<Rightarrow> string"
  ToString :: "jsval \<Rightarrow> string"
  ToNumber :: "jsval \<Rightarrow> jsnum"

text \<open>\<open>v.toFixed(2)\<close> on any value: only a number has the method.\<close>

fun call_toFixed2 :: "builtins \<Rightarrow> jsval \<Rightarrow> js_error + string" where
  "call_toFixed2 B (Num x) = Inr (toFixed2 B x)"
| "call_toFixed2 B Undefined = Inl (TypeError ''Cannot read properties of undefined (reading toFixed)'')"
| "call_toFixed2 B Null = Inl (TypeError ''Cannot read properties of null (reading toFixed)'')"
| "call_toFixed2 B _ = Inl (TypeError ''toFixed is not a function'')"

text \<open>The line feed, and a list of strings joined with a separator.\<close>

definition nl :: string where
  "nl = [CHR 0x0A]"

fun join :: "string \<Rightarrow> string list \<Rightarrow> string" where
  "join sep [] = []"
| "join sep [x] = x"
| "join sep (x # y # ys) = x @ sep @ join sep (y # ys)"

section \<open>PerformanceMonitor (js/utils/performance-monitor.js)\<close>

record metric =
  operation :: string
  executionTime :: jsnum
  memoryBefore :: jsnum
  memoryAfter :: jsnum
  memoryDelta :: jsnum
  timestamp :: date

text \<open>
  \<open>updateInterval\<close> is \<open>null\<close> or the handle that \<open>setInterval\<close> returned.
\<close>

record PerformanceMonitor =
  metrics :: "metric list"
  isMonitoring :: bool
  updateInterval :: "nat option"

text \<open>The constructor.\<close>

definition new_PerformanceMonitor :: PerformanceMonitor where
  "new_PerformanceMonitor = \<lparr>metrics = [], isMonitoring = False, updateInterval = None\<rparr>"

text \<open>
  \<open>recordMetric(operation, executionTime, memoryBefore, memoryAfter)\<close>. The first argument
  of the model is the value of \<open>new Date()\<close> at the call. The metric is pushed, and when
  the list is then longer than 100 its first element is shifted out.
\<close>

definition recordMetric ::
  "date \<Rightarrow> string \<Rightarrow> jsnum \<Rightarrow> jsnum \<Rightarrow> jsnum \<Rightarrow> PerformanceMonitor \<Rightarrow> PerformanceMonitor" where
  "recordMetric now op t before after pm =
     (let m = \<lparr>operation = op, executionTime = t, memoryBefore = before,
                memoryAfter = after, memoryDelta = js_sub after before, timestamp = now\<rparr>;
          pushed = metrics pm @ [m]
      in pm\<lparr>metrics := (if length pushed > 100 then tl pushed else pushed)\<rparr>)"

text \<open>One call of \<open>recordMetric\<close>: the clock reading and the four arguments.\<close>

record record_call =
  rc_at :: date
  rc_operation :: string
  rc_executionTime :: jsnum
  rc_memoryBefore :: jsnum
  rc_memoryAfter :: jsnum

definition metric_of :: "record_call \<Rightarrow> metric" where
  "metric_of c =
     \<lparr>operation = rc_operation c, executionTime = rc_executionTime c,
      memoryBefore = rc_memoryBefore c, memoryAfter = rc_memoryAfter c,
      memoryDelta = js_sub (rc_memoryAfter c) (rc_memoryBefore c), timestamp = rc_at c\<rparr>"

definition record_call :: "PerformanceMonitor \<Rightarrow> record_call \<Rightarrow> PerformanceMonitor" where
  "record_call pm c =
     recordMetric (rc_at c) (rc_operation c) (rc_executionTime c) (rc_memoryBefore c)
       (rc_memoryAfter c) pm"

text \<open>A sequence of calls, in order, on a monitor.\<close>

definition record_all :: "PerformanceMonitor \<Rightarrow> record_call list \<Rightarrow> PerformanceMonitor" where
  "record_all pm cs = foldl record_call pm cs"

text \<open>
  \<open>getSummary()\<close>. The object returned for an empty list has four fields; otherwise it
  has a fifth, \<open>operations\<close>, a projection of every metric.
\<close>

record operation_entry =
  oe_operation :: string
  oe_executionTime :: jsnum
  oe_memoryDelta :: jsnum
  oe_timestamp :: date

record summary =
  totalOperations :: nat
  averageExecutionTime :: jsnum
  totalMemoryUsed :: jsnum
  peakMemoryUsage :: jsnum
  operations :: "operation_entry list option"

definition getSummary :: "PerformanceMonitor \<Rightarrow> summary" where
  "getSummary pm =
     (if length (metrics pm) = 0 then
        \<lparr>totalOperations = 0, averageExecutionTime = Fin 0, totalMemoryUsed = Fin 0,
         peakMemoryUsage = Fin 0, operations = None\<rparr>
      else
        let n = length (metrics pm) in
        \<lparr>totalOperations = n,
         averageExecutionTime =
           js_div (foldl (\<lambda>sum m. js_add sum (executionTime m)) (Fin 0) (metrics pm))
             (Fin (real n)),
         totalMemoryUsed = foldl (\<lambda>sum m. js_add sum (memoryDelta m)) (Fin 0) (metrics pm),
         peakMemoryUsage = Math_max (map memoryAfter (metrics pm)),
         operations = Some (map (\<lambda>m. \<lparr>oe_operation = operation m,
                                       oe_executionTime = executionTime m,
                                       oe_memoryDelta = memoryDelta m,
                                       oe_timestamp = timestamp m\<rparr>) (metrics pm))\<rparr>)"

text \<open>
  \<open>clear()\<close> empties the list; its call of \<open>updateDisplay\<close> writes to the page only
  and catches every error.
\<close>

definition clear :: "PerformanceMonitor \<Rightarrow> PerformanceMonitor" where
  "clear pm = pm\<lparr>metrics := []\<rparr>"

subsection \<open>The periodic sampler\<close>

text \<open>
  The interval timers of the page that the monitor created: the handles that are still
  scheduled, and the number of handles issued so far. \<open>setInterval\<close> returns a fresh
  handle greater than zero; \<open>clearInterval\<close> cancels the handle it is given.
\<close>

record timers =
  scheduled :: "nat list"
  issued :: nat

definition setInterval :: "timers \<Rightarrow> nat \<times> timers" where
  "setInterval ts =
     (let h = Suc (issued ts) in (h, \<lparr>scheduled = scheduled ts @ [h], issued = h\<rparr>))"

definition clearInterval :: "nat \<Rightarrow> timers \<Rightarrow> timers" where
  "clearInterval h ts = ts\<lparr>scheduled := removeAll h (scheduled ts)\<rparr>"

text \<open>A value is truthy unless it is \<open>null\<close> or zero.\<close>

definition truthy :: "nat option \<Rightarrow> bool" where
  "truthy v = (case v of None \<Rightarrow> False | Some h \<Rightarrow> h \<noteq> 0)"

definition start :: "PerformanceMonitor \<times> timers \<Rightarrow> PerformanceMonitor \<times> timers" where
  "start s =
     (case s of (pm, ts) \<Rightarrow>
        if isMonitoring pm then (pm, ts)
        else (case setInterval ts of (h, ts') \<Rightarrow>
                (pm\<lparr>isMonitoring := True, updateInterval := Some h\<rparr>, ts')))"

definition stop :: "PerformanceMonitor \<times> timers \<Rightarrow> PerformanceMonitor \<times> timers" where
  "stop s =
     (case s of (pm, ts) \<Rightarrow>
        if \<not> isMonitoring pm then (pm, ts)
        else if truthy (updateInterval pm) then
          (pm\<lparr>isMonitoring := False, updateInterval := None\<rparr>,
           clearInterval (the (updateInterval pm)) ts)
        else (pm\<lparr>isMonitoring := False\<rparr>, ts))"

text \<open>
  The states of a monitor and its page: the constructed monitor on a page with no timer
  of its own, and whatever the methods make of a reachable state. A timer tick runs
  \<open>updateDisplay\<close>, which changes neither the monitor nor the timers.
\<close>

inductive reachable :: "PerformanceMonitor \<times> timers \<Rightarrow> bool" where
  r_init: "reachable (new_PerformanceMonitor, \<lparr>scheduled = [], issued = 0\<rparr>)"
| r_start: "reachable s \<Longrightarrow> reachable (start s)"
| r_stop: "reachable s \<Longrightarrow> reachable (stop s)"
| r_record: "reachable (pm, ts) \<Longrightarrow> reachable (record_call pm c, ts)"
| r_clear: "reachable (pm, ts) \<Longrightarrow> reachable (clear pm, ts)"

text \<open>The invariant of the sampler: monitoring is on exactly when one timer is scheduled,
  and that timer is the one the monitor remembers.\<close>

definition sampler_inv :: "PerformanceMonitor \<times> timers \<Rightarrow> bool" where
  "sampler_inv s =
     (case s of (pm, ts) \<Rightarrow>
        if isMonitoring pm
        then (case updateInterval pm of None \<Rightarrow> False
              | Some h \<Rightarrow> h \<noteq> 0 \<and> scheduled ts = [h])
        else updateInterval pm = None \<and> scheduled ts = [])"

text \<open>The constructed monitor on a page where it has created no timer yet.\<close>

definition fresh_page :: "PerformanceMonitor \<times> timers" where
  "fresh_page = (new_PerformanceMonitor, \<lparr>scheduled = [], issued = 0\<rparr>)"

text \<open>A sample call of \<open>recordMetric\<close>, numbered.\<close>

definition sample_call :: "nat \<Rightarrow> record_call" where
  "sample_call i =
     \<lparr>rc_at = int i, rc_operation = ''op'', rc_executionTime = Fin (real i),
      rc_memoryBefore = Fin 100, rc_memoryAfter = Fin 150\<rparr>"

section \<open>TensorUtils (js/core/tensor-utils.js)\<close>

subsection \<open>The tensor library, as far as the code sees it\<close>

text \<open>
  A tensor is a handle. The library state lists the tensors created so far, every call of
  \<open>tensor.dispose()\<close> in order, and the number of library calls made. A tensor
  \<open>isDisposed\<close> once \<open>dispose\<close> has been called on it.
\<close>

record engine =
  created :: "nat list"
  disposeLog :: "nat list"
  calls :: nat

definition isDisposed :: "'a engine_scheme \<Rightarrow> nat \<Rightarrow> bool" where
  "isDisposed e h = (h \<in> set (disposeLog e))"

definition dispose :: "nat \<Rightarrow> 'a engine_scheme \<Rightarrow> 'a engine_scheme" where
  "dispose h e = e\<lparr>disposeLog := disposeLog e @ [h]\<rparr>"

text \<open>
  \<open>safeDispose(...tensors)\<close>: for each argument in turn, a tensor that is not \<open>null\<close>
  and not yet disposed is disposed.
\<close>

definition safeDispose :: "nat option list \<Rightarrow> 'a engine_scheme \<Rightarrow> 'a engine_scheme" where
  "safeDispose tensors e =
     foldl (\<lambda>e tensor. case tensor of
                          None \<Rightarrow> e
                        | Some h \<Rightarrow> if \<not> isDisposed e h then dispose h e else e)
       e tensors"

subsection \<open>performance.benchmark\<close>

text \<open>
  The surroundings of a benchmark: a world \<open>'w\<close> that the operation changes,
  \<open>performance.now()\<close> and \<open>tf.memory().numBytes\<close> as readings of the world. An
  operation returns or throws, and leaves a world behind.
\<close>

record 'w runtime =
  performance_now :: "'w \<Rightarrow> jsnum"
  memory_numBytes :: "'w \<Rightarrow> jsnum"

record benchmark_result =
  averageTime :: jsnum
  minTime :: jsnum
  maxTime :: jsnum
  br_memoryDelta :: jsnum
  br_times :: "jsnum list"

text \<open>
  The loop \<open>for (let i = 0; i < iterations; i++)\<close>, from the value \<open>i\<close> on, with the
  times pushed so far. An operation that throws ends the benchmark with its error.
\<close>

function bench_loop ::
  "('w, 'x) runtime_scheme \<Rightarrow> ('w \<Rightarrow> (js_error + unit) \<times> 'w) \<Rightarrow> int \<Rightarrow> int \<Rightarrow> jsnum list \<Rightarrow> 'w
     \<Rightarrow> (js_error + jsnum list) \<times> 'w" where
  "bench_loop R oper iterations i ts w =
     (if i < iterations then
        (let startT = performance_now R w in
         case oper w of
           (Inl e, w') \<Rightarrow> (Inl e, w')
         | (Inr u, w') \<Rightarrow>
             (let endT = performance_now R w'
              in bench_loop R oper iterations (i + 1) (ts @ [js_sub endT startT]) w'))
      else (Inr ts, w))"
  by pat_completeness auto
termination
  by (relation "measure (\<lambda>(R, oper, iterations, i, ts, w). nat (iterations - i))") auto

definition benchmark ::
  "('w, 'x) runtime_scheme \<Rightarrow> ('w \<Rightarrow> (js_error + unit) \<times> 'w) \<Rightarrow> int \<Rightarrow> 'w
     \<Rightarrow> (js_error + benchmark_result) \<times> 'w" where
  "benchmark R oper iterations w =
     (let memoryBefore = memory_numBytes R w in
      case bench_loop R oper iterations 0 [] w of
        (Inl e, w') \<Rightarrow> (Inl e, w')
      | (Inr ts, w') \<Rightarrow>
          (let memoryAfter = memory_numBytes R w';
               avgTime = js_div (foldl js_add (Fin 0) ts) (Fin (real (length ts)));
               minT = Math_min ts;
               maxT = Math_max ts
           in (Inr \<lparr>averageTime = avgTime, minTime = minT, maxTime = maxT,
                     br_memoryDelta = js_sub memoryAfter memoryBefore, br_times = ts\<rparr>, w')))"

text \<open>
  An operation wrapped so that the world carries the number of times it was invoked, and
  the runtime that reads through the counter.
\<close>

definition counted ::
  "('w \<Rightarrow> (js_error + unit) \<times> 'w) \<Rightarrow> nat \<times> 'w \<Rightarrow> (js_error + unit) \<times> (nat \<times> 'w)" where
  "counted oper cw =
     (case cw of (n, w) \<Rightarrow> (case oper w of (r, w') \<Rightarrow> (r, (Suc n, w'))))"

definition counted_runtime :: "'w runtime \<Rightarrow> (nat \<times> 'w) runtime" where
  "counted_runtime R =
     \<lparr>performance_now = (\<lambda>cw. performance_now R (snd cw)),
      memory_numBytes = (\<lambda>cw. memory_numBytes R (snd cw))\<rparr>"

text \<open>
  A sample world for evaluation: the world is the clock in milliseconds, the operation
  takes 2 ms and never throws, no memory is in use.
\<close>

definition sample_runtime :: "nat runtime" where
  "sample_runtime =
     \<lparr>performance_now = (\<lambda>w. Fin (real w)), memory_numBytes = (\<lambda>w. Fin 0)\<rparr>"

definition sample_operation :: "nat \<Rightarrow> (js_error + unit) \<times> nat" where
  "sample_operation w = (Inr (), w + 2)"

section \<open>TensorOperationsDemo (the tensor operations demo page)\<close>

record result_entry =
  title :: string
  content :: string
  re_timestamp :: date

text \<open>
  The state of a session: the library, the demo object (\<open>results\<close>, and \<open>chart\<close>,
  which is \<open>null\<close> when the page has no canvas and otherwise lists the tensors it has been
  updated with), the value of the page element \<open>results\<close> when the page has one, and the
  global \<open>performanceMonitor\<close>.
\<close>

record session = engine +
  results :: "result_entry list"
  chart :: "nat list option"
  resultsElement :: "string option"
  monitor :: PerformanceMonitor

text \<open>
  What the session does not decide: the clock and the memory reading, the date, which
  library calls throw (the \<open>k\<close>-th call of the session throws with the message
  \<open>raises k\<close>, if any), and how tensors and numbers print.
\<close>

record env = "session runtime" +
  new_Date :: "session \<Rightarrow> date"
  raises :: "nat \<Rightarrow> string option"
  tensor_toString :: "nat \<Rightarrow> string"
  js :: builtins

text \<open>A step of a method: it returns or throws, and leaves a session behind.\<close>

type_synonym 'a action = "session \<Rightarrow> (js_error + 'a) \<times> session"

definition return :: "'a \<Rightarrow> 'a action" where
  "return x s = (Inr x, s)"

definition and_then :: "'a action \<Rightarrow> ('a \<Rightarrow> 'b action) \<Rightarrow> 'b action" where
  "and_then m f s = (case m s of (Inl e, s') \<Rightarrow> (Inl e, s') | (Inr x, s') \<Rightarrow> f x s')"

text \<open>
  A library call that makes a tensor (\<open>tf.tensor(...)\<close>, \<open>t.flatten()\<close>, ...): it throws
  or returns a fresh tensor.
\<close>

definition tf_call :: "env \<Rightarrow> nat action" where
  "tf_call E s =
     (let k = calls s; s1 = s\<lparr>calls := Suc k\<rparr> in
      case raises E k of
        Some m \<Rightarrow> (Inl (Error m), s1)
      | None \<Rightarrow> (let h = length (created s) in (Inr h, s1\<lparr>created := created s @ [h]\<rparr>)))"

text \<open>\<open>formatResults()\<close>, \<open>updateResults(content)\<close> and \<open>addResult(title, content)\<close>.\<close>

definition formatResults :: "session \<Rightarrow> string" where
  "formatResults s =
     concat (map (\<lambda>result. ''=== '' @ title result @ '' ==='' @ nl @ content result @ nl @ nl)
       (results s))"

definition updateResults :: "string \<Rightarrow> session \<Rightarrow> session" where
  "updateResults c s =
     (case resultsElement s of None \<Rightarrow> s | Some old \<Rightarrow> s\<lparr>resultsElement := Some c\<rparr>)"

definition addResult :: "env \<Rightarrow> string \<Rightarrow> string \<Rightarrow> unit action" where
  "addResult E t c s =
     (let s1 = s\<lparr>results := results s @ [\<lparr>title = t, content = c, re_timestamp = new_Date E s\<rparr>]\<rparr>
      in (Inr (), updateResults (formatResults s1) s1))"

text \<open>The global function \<open>clearResults()\<close>.\<close>

definition clearResults :: "session \<Rightarrow> session" where
  "clearResults s = updateResults [] (s\<lparr>results := []\<rparr>)"

text \<open>
  \<open>updateChart(tensor)\<close>: nothing without a chart; otherwise the tensor's data is read
  and the chart redrawn, one external call that may throw.
\<close>

definition updateChart :: "env \<Rightarrow> nat \<Rightarrow> unit action" where
  "updateChart E tensor s =
     (case chart s of
        None \<Rightarrow> (Inr (), s)
      | Some shown \<Rightarrow>
          (let k = calls s; s1 = s\<lparr>calls := Suc k\<rparr> in
           case raises E k of
             Some m \<Rightarrow> (Inl (Error m), s1)
           | None \<Rightarrow> (Inr (), s1\<lparr>chart := Some (shown @ [tensor])\<rparr>)))"

subsection \<open>runTensorShape\<close>

text \<open>
  The try block makes nine pairs of tensors, each by a creation and a shape operation,
  and appends a paragraph for each pair to \<open>content\<close>. The operations, in order:
\<close>

definition shape_ops :: "string list" where
  "shape_ops = [''asScalar'', ''flatten'', ''as1D'', ''as2D'', ''as3D'', ''as4D'', ''as5D'',
                ''expandDims'', ''squeeze'']"

text \<open>One pair: the content and the tensors so far, extended.\<close>

definition shape_step :: "env \<Rightarrow> string \<Rightarrow> string \<times> nat list \<Rightarrow> (string \<times> nat list) action" where
  "shape_step E name acc =
     and_then (tf_call E) (\<lambda>before.
     and_then (tf_call E) (\<lambda>after.
       return (fst acc @ name @ '':'' @ nl @ ''Before: '' @ tensor_toString E before @ nl @
                 ''After: '' @ tensor_toString E after @ nl @ nl,
               snd acc @ [before, after])))"

fun shape_steps :: "env \<Rightarrow> string list \<Rightarrow> string \<times> nat list \<Rightarrow> (string \<times> nat list) action" where
  "shape_steps E [] acc = return acc"
| "shape_steps E (name # names) acc = and_then (shape_step E name acc) (shape_steps E names)"

text \<open>
  The rest of the try block: the chart is updated with the last tensor made, all the
  tensors are handed to \<open>safeDispose\<close>, the two closing lines (the time since
  \<open>startTime\<close> and the memory in use, read after the disposal) are appended and the
  result is added under the title of the demo.
\<close>

definition closing_lines :: "env \<Rightarrow> jsnum \<Rightarrow> session \<Rightarrow> string" where
  "closing_lines E startTime s =
     (let endTime = performance_now E s in
      ''Execution time: '' @ toFixed2 (js E) (js_sub endTime startTime) @ ''ms'' @ nl @
      ''Memory usage: '' @ toFixed2 (js E) (js_div (memory_numBytes E s) (Fin 1024)) @ '' KB'')"

definition shape_finish :: "env \<Rightarrow> jsnum \<Rightarrow> string \<times> nat list \<Rightarrow> unit action" where
  "shape_finish E startTime acc =
     and_then (updateChart E (last (snd acc))) (\<lambda>u.
     and_then (\<lambda>s. (Inr (), safeDispose (map Some (snd acc)) s)) (\<lambda>u.
     (\<lambda>s. addResult E ''Shape Operations'' (fst acc @ closing_lines E startTime s) s)))"

definition shape_try :: "env \<Rightarrow> jsnum \<Rightarrow> unit action" where
  "shape_try E startTime =
     and_then (shape_steps E shape_ops (''=== TENSOR SHAPE OPERATIONS ==='' @ nl @ nl, []))
       (shape_finish E startTime)"

definition runTensorShape :: "env \<Rightarrow> unit action" where
  "runTensorShape E s =
     (let startTime = performance_now E s in
      case shape_try E startTime s of
        (Inr u, s') \<Rightarrow> (Inr u, s')
      | (Inl error, s') \<Rightarrow>
          addResult E ''Error'' (''Error in shape operations: '' @ message error) s')"

text \<open>
  A run of library calls leaves the log, the monitor, the dispose log and the results
  element of a session as they were.
\<close>

definition untouched :: "session \<Rightarrow> session \<Rightarrow> bool" where
  "untouched s s' =
     (results s' = results s \<and> monitor s' = monitor s \<and> disposeLog s' = disposeLog s \<and>
      resultsElement s' = resultsElement s)"

subsection \<open>Sample sessions\<close>

text \<open>
  A session on a page with a canvas and a results element, before any demo has run, and
  surroundings in which the library call number \<open>k\<close> throws with the message
  \<open>boom\<close> when \<open>fails k\<close>.
\<close>

definition new_session :: session where
  "new_session =
     \<lparr>created = [], disposeLog = [], calls = 0, results = [], chart = Some [],
      resultsElement = Some [], monitor = new_PerformanceMonitor\<rparr>"

definition sample_builtins :: builtins where
  "sample_builtins =
     \<lparr>toFixed2 = (\<lambda>x. ''0.00''), toISOString = (\<lambda>d. ''2026-11-03T05:59:00.000Z''),
      Date_toString = (\<lambda>d. ''Tue Nov 03 2026''), ToString = (\<lambda>v. ''value''),
      ToNumber = (\<lambda>v. NaN)\<rparr>"

definition sample_env :: "(nat \<Rightarrow> bool) \<Rightarrow> env" where
  "sample_env fails =
     \<lparr>performance_now = (\<lambda>s. Fin (real (calls s))),
      memory_numBytes = (\<lambda>s. Fin 0),
      new_Date = (\<lambda>s. int (calls s)),
      raises = (\<lambda>k. if fails k then Some ''boom'' else None),
      tensor_toString = (\<lambda>h. ''Tensor''),
      js = sample_builtins\<rparr>"


definition failing_env :: env where
  "failing_env = sample_env (\<lambda>k. k = 4)"

section \<open>ExportUtils (js/utils/export-utils.js)\<close>

text \<open>
  A file handed to the browser for download: the content of the blob, its MIME type and
  the file name. \<open>JsonText v\<close> stands for the text \<open>JSON.stringify(v, null, 2)\<close>.
\<close>

datatype payload = JsonText jsval | Text string

record download =
  payload :: payload
  mime :: string
  filename :: string

text \<open>Sequencing of computations that return a value or throw.\<close>

definition on_value :: "js_error + 'a \<Rightarrow> ('a \<Rightarrow> js_error + 'b) \<Rightarrow> js_error + 'b" where
  "on_value m f = (case m of Inl e \<Rightarrow> Inl e | Inr x \<Rightarrow> f x)"

text \<open>The double quote.\<close>

definition dq :: string where
  "dq = [CHR 0x22]"

text \<open>
  \<open>new Date().toISOString().replace(/[:.]/g, '-')\<close>: every colon and every full stop of
  the ISO string becomes a hyphen.
\<close>

definition replace_colon_dot :: "string \<Rightarrow> string" where
  "replace_colon_dot s = map (\<lambda>c. if c = CHR '':'' \<or> c = CHR ''.'' then CHR ''-'' else c) s"

definition file_timestamp :: "builtins \<Rightarrow> date \<Rightarrow> string" where
  "file_timestamp B now = replace_colon_dot (toISOString B now)"

text \<open>\<open>exportJSON(data, filename)\<close> and \<open>downloadFile\<close>, which hands the file over.\<close>

definition exportJSON :: "jsval \<Rightarrow> string \<Rightarrow> download" where
  "exportJSON data name = \<lparr>payload = JsonText data, mime = ''application/json'', filename = name\<rparr>"

text \<open>
  \<open>exportCSV(data, filename)\<close> on an array of rows: no file for an empty array; otherwise
  the keys of the first row are the header line, and every row gives a line of its values
  under these keys, strings in double quotes.
\<close>

fun object_keys :: "jsval \<Rightarrow> string list" where
  "object_keys (Obj ps) = map fst ps"
| "object_keys _ = []"

fun csv_cell :: "builtins \<Rightarrow> jsval \<Rightarrow> string" where
  "csv_cell B (Str v) = dq @ v @ dq"
| "csv_cell B Undefined = []"
| "csv_cell B Null = []"
| "csv_cell B v = ToString B v"

fun csv_cells :: "builtins \<Rightarrow> jsval \<Rightarrow> string list \<Rightarrow> js_error + string list" where
  "csv_cells B row [] = Inr []"
| "csv_cells B row (header # headers) =
     on_value (get_prop row header) (\<lambda>v.
     on_value (csv_cells B row headers) (\<lambda>cells. Inr (csv_cell B v # cells)))"

fun csv_rows :: "builtins \<Rightarrow> string list \<Rightarrow> jsval list \<Rightarrow> js_error + string list" where
  "csv_rows B headers [] = Inr []"
| "csv_rows B headers (row # rows) =
     on_value (csv_cells B row headers) (\<lambda>cells.
     on_value (csv_rows B headers rows) (\<lambda>lines. Inr (join '','' cells # lines)))"

definition exportCSV :: "builtins \<Rightarrow> jsval list \<Rightarrow> string \<Rightarrow> js_error + download option" where
  "exportCSV B data name =
     (case data of
        [] \<Rightarrow> Inr None
      | first # rest \<Rightarrow>
          (let headers = object_keys first in
           on_value (csv_rows B headers data) (\<lambda>lines.
             Inr (Some \<lparr>payload = Text (join nl (join '','' headers # lines)),
                        mime = ''text/csv'', filename = name\<rparr>))))"

text \<open>
  \<open>exportPerformanceData(performanceData, format)\<close>, called when the clock shows
  \<open>now\<close>. For \<open>csv\<close> the metrics are mapped to rows of six properties.
\<close>

definition metric_row :: "jsval \<Rightarrow> js_error + jsval" where
  "metric_row metric =
     on_value (get_prop metric ''operation'') (\<lambda>a.
     on_value (get_prop metric ''executionTime'') (\<lambda>b.
     on_value (get_prop metric ''memoryBefore'') (\<lambda>c.
     on_value (get_prop metric ''memoryAfter'') (\<lambda>d.
     on_value (get_prop metric ''memoryDelta'') (\<lambda>e.
     on_value (get_prop metric ''timestamp'') (\<lambda>f.
       Inr (Obj [(''operation'', a), (''executionTime'', b), (''memoryBefore'', c),
                 (''memoryAfter'', d), (''memoryDelta'', e), (''timestamp'', f)])))))))"

fun metric_rows :: "jsval list \<Rightarrow> js_error + jsval list" where
  "metric_rows [] = Inr []"
| "metric_rows (m # ms) =
     on_value (metric_row m) (\<lambda>r. on_value (metric_rows ms) (\<lambda>rs. Inr (r # rs)))"

fun array_map_rows :: "jsval \<Rightarrow> js_error + jsval list" where
  "array_map_rows (Arr ms) = metric_rows ms"
| "array_map_rows Undefined = Inl (TypeError ''Cannot read properties of undefined (reading map)'')"
| "array_map_rows Null = Inl (TypeError ''Cannot read properties of null (reading map)'')"
| "array_map_rows _ = Inl (TypeError ''map is not a function'')"

definition exportPerformanceData ::
  "builtins \<Rightarrow> date \<Rightarrow> jsval \<Rightarrow> string \<Rightarrow> js_error + download option" where
  "exportPerformanceData B now performanceData format =
     (let stamp = file_timestamp B now in
      if format = ''csv'' then
        on_value (get_prop performanceData ''metrics'') (\<lambda>ms.
        on_value (array_map_rows ms) (\<lambda>csvData.
          exportCSV B csvData (''performance-'' @ stamp @ ''.csv'')))
      else Inr (Some (exportJSON performanceData (''performance-'' @ stamp @ ''.json''))))"

subsection \<open>exportReport\<close>

text \<open>The report object that \<open>exportReport\<close> builds.\<close>

record report =
  rp_title :: string
  rp_timestamp :: date
  rp_results :: "result_entry list"
  rp_performance :: jsval
  rp_totalResults :: nat
  rp_totalOperations :: nat
  rp_averageExecutionTime :: jsval

text \<open>
  The number of matches of \<open>/Execution time:/g\<close> in a string, from left to right
  without overlap.
\<close>

fun count_matches :: "string \<Rightarrow> string \<Rightarrow> nat" where
  "count_matches p [] = 0"
| "count_matches p (c # cs) =
     (if take (length p) (c # cs) = p
      then Suc (count_matches p (drop (length p - 1) cs))
      else count_matches p cs)"

definition count_operations :: "result_entry list \<Rightarrow> nat" where
  "count_operations rs =
     foldl (\<lambda>sum r. sum + count_matches ''Execution time:'' (content r)) 0 rs"

text \<open>
  The report as the value that \<open>JSON.stringify\<close> receives: the properties in the order
  in which the object literal lists them.
\<close>

definition result_value :: "result_entry \<Rightarrow> jsval" where
  "result_value r =
     Obj [(''title'', Str (title r)), (''content'', Str (content r)),
          (''timestamp'', DateV (re_timestamp r))]"

definition report_value :: "report \<Rightarrow> jsval" where
  "report_value rp =
     Obj [(''title'', Str (rp_title rp)),
          (''timestamp'', DateV (rp_timestamp rp)),
          (''results'', Arr (map result_value (rp_results rp))),
          (''performance'', rp_performance rp),
          (''summary'',
             Obj [(''totalResults'', Num (Fin (real (rp_totalResults rp)))),
                  (''totalOperations'', Num (Fin (real (rp_totalOperations rp)))),
                  (''averageExecutionTime'', rp_averageExecutionTime rp)])]"

text \<open>A number in a template.\<close>

definition show_nat :: "builtins \<Rightarrow> nat \<Rightarrow> string" where
  "show_nat B n = ToString B (Num (Fin (real n)))"

text \<open>\<open>report.performance.summary.\<close>\<^emph>\<open>key\<close>, read afresh at each use.\<close>

definition performance_summary :: "report \<Rightarrow> string \<Rightarrow> js_error + jsval" where
  "performance_summary rp key =
     on_value (get_prop (rp_performance rp) ''summary'') (\<lambda>summary. get_prop summary key)"

subsubsection \<open>The text report\<close>

definition text_head :: "builtins \<Rightarrow> report \<Rightarrow> js_error + string" where
  "text_head B rp =
     on_value (call_toFixed2 B (rp_averageExecutionTime rp)) (\<lambda>avg.
       Inr (rp_title rp @ nl @
            ''Generated: '' @ Date_toString B (rp_timestamp rp) @ nl @
            ''Total Results: '' @ show_nat B (rp_totalResults rp) @ nl @
            ''Total Operations: '' @ show_nat B (rp_totalOperations rp) @ nl @
            ''Average Execution Time: '' @ avg @ ''ms'' @ nl @ nl))"

definition text_result :: "builtins \<Rightarrow> result_entry \<Rightarrow> string" where
  "text_result B result =
     ''=== '' @ title result @ '' ==='' @ nl @
     ''Timestamp: '' @ Date_toString B (re_timestamp result) @ nl @
     content result @ nl @ nl"

definition text_performance :: "builtins \<Rightarrow> report \<Rightarrow> js_error + string" where
  "text_performance B rp =
     (if is_truthy (rp_performance rp) then
        on_value (performance_summary rp ''totalOperations'') (\<lambda>ops.
        on_value (performance_summary rp ''averageExecutionTime'') (\<lambda>avg.
        on_value (call_toFixed2 B avg) (\<lambda>avgText.
        on_value (performance_summary rp ''peakMemoryUsage'') (\<lambda>peak.
          Inr (''=== PERFORMANCE SUMMARY ==='' @ nl @
               ''Total Operations: '' @ ToString B ops @ nl @
               ''Average Execution Time: '' @ avgText @ ''ms'' @ nl @
               ''Peak Memory Usage: '' @
                 toFixed2 B (js_div (ToNumber B peak) (Fin 1024)) @ '' KB'' @ nl)))))
      else Inr [])"

definition exportTextReport :: "builtins \<Rightarrow> report \<Rightarrow> string \<Rightarrow> js_error + download" where
  "exportTextReport B rp name =
     on_value (text_head B rp) (\<lambda>head.
     on_value (text_performance B rp) (\<lambda>performance.
       Inr \<lparr>payload = Text (head @ concat (map (text_result B) (rp_results rp)) @ performance),
            mime = ''text/plain'', filename = name\<rparr>))"

subsubsection \<open>The HTML report\<close>

definition html_head :: "builtins \<Rightarrow> report \<Rightarrow> js_error + string" where
  "html_head B rp =
     on_value (call_toFixed2 B (rp_averageExecutionTime rp)) (\<lambda>avg.
       Inr (join nl
         ['''',
          ''<!DOCTYPE html>'',
          ''<html>'',
          ''<head>'',
          ''    <title>'' @ rp_title rp @ ''</title>'',
          ''    <style>'',
          ''        body { font-family: Arial, sans-serif; margin: 20px; }'',
          ''        .header { background: #f0f0f0; padding: 20px; border-radius: 5px; }'',
          ''        .result { margin: 20px 0; padding: 15px; border: 1px solid #ddd; border-radius: 5px; }'',
          ''        .performance { background: #e8f4f8; padding: 15px; border-radius: 5px; }'',
          ''        pre { background: #f5f5f5; padding: 10px; border-radius: 3px; overflow-x: auto; }'',
          ''    </style>'',
          ''</head>'',
          ''<body>'',
          ''    <div class='' @ dq @ ''header'' @ dq @ ''>'',
          ''        <h1>'' @ rp_title rp @ ''</h1>'',
          ''        <p>Generated: '' @ Date_toString B (rp_timestamp rp) @ ''</p>'',
          ''        <p>Total Results: '' @ show_nat B (rp_totalResults rp) @ ''</p>'',
          ''        <p>Total Operations: '' @ show_nat B (rp_totalOperations rp) @ ''</p>'',
          ''        <p>Average Execution Time: '' @ avg @ ''ms</p>'',
          ''    </div>'',
          ''    '',
          ''    '']))"

definition html_result :: "builtins \<Rightarrow> result_entry \<Rightarrow> string" where
  "html_result B result =
     join nl
       ['''',
        ''        <div class='' @ dq @ ''result'' @ dq @ ''>'',
        ''            <h3>'' @ title result @ ''</h3>'',
        ''            <p>Timestamp: '' @ Date_toString B (re_timestamp result) @ ''</p>'',
        ''            <pre>'' @ content result @ ''</pre>'',
        ''        </div>'',
        ''    '']"

definition html_performance :: "builtins \<Rightarrow> report \<Rightarrow> js_error + string" where
  "html_performance B rp =
     (if is_truthy (rp_performance rp) then
        on_value (performance_summary rp ''totalOperations'') (\<lambda>ops.
        on_value (performance_summary rp ''averageExecutionTime'') (\<lambda>avg.
        on_value (call_toFixed2 B avg) (\<lambda>avgText.
        on_value (performance_summary rp ''peakMemoryUsage'') (\<lambda>peak.
          Inr (join nl
            ['''',
             ''        <div class='' @ dq @ ''performance'' @ dq @ ''>'',
             ''            <h3>Performance Summary</h3>'',
             ''            <p>Total Operations: '' @ ToString B ops @ ''</p>'',
             ''            <p>Average Execution Time: '' @ avgText @ ''ms</p>'',
             ''            <p>Peak Memory Usage: '' @
                 toFixed2 B (js_div (ToNumber B peak) (Fin 1024)) @ '' KB</p>'',
             ''        </div>'',
             ''    ''])))))
      else Inr [])"

definition html_tail :: string where
  "html_tail = join nl ['''', ''</body>'', ''</html>'']"

definition exportHTMLReport :: "builtins \<Rightarrow> report \<Rightarrow> string \<Rightarrow> js_error + download" where
  "exportHTMLReport B rp name =
     on_value (html_head B rp) (\<lambda>head.
     on_value (html_performance B rp) (\<lambda>performance.
       Inr \<lparr>payload =
              Text (head @ concat (map (html_result B) (rp_results rp)) @
                    nl @ ''    '' @ nl @ ''    '' @ performance @ html_tail),
            mime = ''text/html'', filename = name\<rparr>))"

subsubsection \<open>exportReport(results, performanceData, format)\<close>

text \<open>
  The two dates are the readings of the clock for the file name and for the report. An
  argument \<open>performanceData\<close> that is \<open>undefined\<close> takes the default \<open>null\<close>. The
  first definition is the part of the function that builds the report object, the second
  the whole function.
\<close>

definition build_report :: "date \<Rightarrow> result_entry list \<Rightarrow> jsval \<Rightarrow> js_error + report" where
  "build_report now' rs performanceArg =
     (let performanceData = (if performanceArg = Undefined then Null else performanceArg);
          rp = \<lparr>rp_title = ''TensorFlow.js Learning Platform Report'',
                rp_timestamp = now',
                rp_results = rs,
                rp_performance = performanceData,
                rp_totalResults = length rs,
                rp_totalOperations = count_operations rs,
                rp_averageExecutionTime = Num (Fin 0)\<rparr>
      in if is_truthy performanceData then
           on_value (get_prop performanceData ''summary'') (\<lambda>summary.
           on_value (get_prop summary ''averageExecutionTime'') (\<lambda>avg.
             Inr (rp\<lparr>rp_averageExecutionTime := avg\<rparr>)))
         else Inr rp)"

definition exportReport ::
  "builtins \<Rightarrow> date \<Rightarrow> date \<Rightarrow> result_entry list \<Rightarrow> jsval \<Rightarrow> string \<Rightarrow> js_error + download" where
  "exportReport B now now' rs performanceArg format =
     (let stamp = file_timestamp B now in
      on_value (build_report now' rs performanceArg) (\<lambda>rp.
        if format = ''html'' then exportHTMLReport B rp (''report-'' @ stamp @ ''.html'')
        else if format = ''txt'' then exportTextReport B rp (''report-'' @ stamp @ ''.txt'')
        else Inr (exportJSON (report_value rp) (''report-'' @ stamp @ ''.json''))))"

subsection \<open>The global function exportResults of the demo page\<close>

definition exportResults :: "session \<Rightarrow> download" where
  "exportResults s =
     \<lparr>payload = JsonText (Arr (map result_value (results s))),
      mime = ''application/json'',
      filename = ''tensor-operations-results.json''\<rparr>"

text \<open>\<open>s.includes(p)\<close>: the string \<open>p\<close> occurs in \<open>s\<close>.\<close>

fun str_includes :: "string \<Rightarrow> string \<Rightarrow> bool" where
  "str_includes [] p = (p = [])"
| "str_includes (c # cs) p = (take (length p) (c # cs) = p \<or> str_includes cs p)"

text \<open>Two results and a performance object for evaluation.\<close>

definition two_results :: "result_entry list" where
  "two_results =
     [\<lparr>title = ''A'', content = ''Execution time: 1.00ms'', re_timestamp = 1\<rparr>,
      \<lparr>title = ''Error'', content = ''boom'', re_timestamp = 2\<rparr>]"

definition no_metrics :: jsval where
  "no_metrics = Obj [(''summary'', Obj []), (''metrics'', Arr [])]"

definition one_metric :: jsval where
  "one_metric =
     Obj [(''summary'', Obj []),
          (''metrics'',
             Arr [Obj [(''operation'', Str ''op''), (''executionTime'', Num (Fin 5)),
                       (''memoryBefore'', Num (Fin 100)), (''memoryAfter'', Num (Fin 150)),
                       (''memoryDelta'', Num (Fin 50)), (''timestamp'', DateV 7)]])]"

text \<open>The report that \<open>exportReport\<close> builds from the two results and no performance data.\<close>

definition sample_report :: report where
  "sample_report =
     \<lparr>rp_title = ''TensorFlow.js Learning Platform Report'', rp_timestamp = 1,
      rp_results = two_results, rp_performance = Null, rp_totalResults = 2,
      rp_totalOperations = 1, rp_averageExecutionTime = Num (Fin 0)\<rparr>"

text \<open>The file that \<open>exportPerformanceData\<close> makes of the one metric as \<open>csv\<close>.\<close>

definition one_metric_csv :: download where
  "one_metric_csv =
     \<lparr>payload = Text (join nl
        [''operation,executionTime,memoryBefore,memoryAfter,memoryDelta,timestamp'',
         dq @ ''op'' @ dq @ '',value,value,value,value,value'']),
      mime = ''text/csv'',
      filename = ''performance-2026-11-03T05-59-00-000Z.csv''\<rparr>"

section \<open>Properties of the metric recorder\<close>

lemma recordMetric_metrics:
  "metrics (record_call pm c) =
     (let pushed = metrics pm @ [metric_of c]
      in if length pushed > 100 then tl pushed else pushed)"
  by (simp add: record_call_def recordMetric_def metric_of_def Let_def)

lemma record_all_snoc: "record_all pm (cs @ [c]) = record_call (record_all pm cs) c"
  by (simp add: record_all_def)

lemma record_all_drop:
  "metrics (record_all new_PerformanceMonitor cs) = drop (length cs - 100) (map metric_of cs)"
proof (induction cs rule: rev_induct)
  case Nil
  show ?case by (simp add: record_all_def new_PerformanceMonitor_def)
next
  case (snoc c cs)
  let ?ms = "map metric_of cs"
  have prev: "metrics (record_all new_PerformanceMonitor cs) = drop (length cs - 100) ?ms"
    by (rule snoc.IH)
  show ?case
  proof (cases "length cs < 100")
    case True
    then show ?thesis
      by (simp add: record_all_snoc recordMetric_metrics prev Let_def)
  next
    case False
    then have len: "length (drop (length cs - 100) ?ms) = 100" by simp
    have ne: "drop (length cs - 100) ?ms \<noteq> []" using False by simp
    have "tl (drop (length cs - 100) ?ms) = drop (Suc (length cs - 100)) ?ms"
      by (simp add: drop_Suc tl_drop)
    with ne have "tl (drop (length cs - 100) ?ms @ [metric_of c]) =
          drop (Suc (length cs - 100)) ?ms @ [metric_of c]"
      by simp
    moreover have "Suc (length cs - 100) = Suc (length cs) - 100"
      using False by simp
    ultimately show ?thesis
      using False len
      by (simp add: record_all_snoc recordMetric_metrics prev Let_def)
  qed
qed

text \<open>
  C1. After any sequence of \<open>recordMetric\<close> calls on a fresh monitor: up to 100 calls, the
  monitor holds the metrics of all the calls in the order of the calls; beyond 100, it holds
  the metrics of the last 100 calls, in order. It never holds more than 100, and every
  call on a monitor that is full drops the single oldest metric and appends the new one.
\<close>

theorem recordMetric_bounded_fifo:
  "(length cs \<le> 100 \<longrightarrow>
      metrics (record_all new_PerformanceMonitor cs) = map metric_of cs) \<and>
   (length cs > 100 \<longrightarrow>
      metrics (record_all new_PerformanceMonitor cs) =
        drop (length cs - 100) (map metric_of cs) \<and>
      length (metrics (record_all new_PerformanceMonitor cs)) = 100) \<and>
   length (metrics (record_all new_PerformanceMonitor cs)) \<le> 100 \<and>
   metrics (record_call (record_all new_PerformanceMonitor cs) c) =
     (if length cs < 100 then metrics (record_all new_PerformanceMonitor cs)
      else tl (metrics (record_all new_PerformanceMonitor cs))) @ [metric_of c]"
proof -
  have d: "metrics (record_all new_PerformanceMonitor cs) =
           drop (length cs - 100) (map metric_of cs)"
    by (rule record_all_drop)
  have step: "metrics (record_call (record_all new_PerformanceMonitor cs) c) =
     (if length cs < 100 then metrics (record_all new_PerformanceMonitor cs)
      else tl (metrics (record_all new_PerformanceMonitor cs))) @ [metric_of c]"
  proof (cases "length cs < 100")
    case True
    then show ?thesis by (simp add: recordMetric_metrics d Let_def)
  next
    case False
    then have "drop (length cs - 100) (map metric_of cs) \<noteq> []" by simp
    then show ?thesis using False by (simp add: recordMetric_metrics d Let_def)
  qed
  show ?thesis using d step by simp
qed

theorem recordMetric_bounded_fifo_witness:
  "length (map sample_call [0..<3]) \<le> 100 \<and>
   metrics (record_all new_PerformanceMonitor (map sample_call [0..<3])) =
     map metric_of (map sample_call [0..<3]) \<and>
   length (map sample_call [0..<101]) > 100 \<and>
   metrics (record_all new_PerformanceMonitor (map sample_call [0..<101])) =
     map metric_of (map sample_call [1..<101])"
  using recordMetric_bounded_fifo [of "map sample_call [0..<3]"]
    recordMetric_bounded_fifo [of "map sample_call [0..<101]"]
  by (simp add: drop_map)

text \<open>
  C6. On a monitor with no metric, \<open>getSummary\<close> returns the summary with all four fields
  zero. After one \<open>recordMetric\<close> on such a monitor with execution time 5, memory before
  100 and memory after 150, it returns 1 operation, average time 5, memory used 50 and
  peak memory 150. Its result depends on the metric list only: two monitors with the same
  metrics have the same summary, and the function returns a value and changes nothing.
\<close>

theorem getSummary_empty_single_pure:
  "(metrics pm = [] \<longrightarrow>
      getSummary pm =
        \<lparr>totalOperations = 0, averageExecutionTime = Fin 0, totalMemoryUsed = Fin 0,
         peakMemoryUsage = Fin 0, operations = None\<rparr>) \<and>
   (metrics pm = [] \<longrightarrow>
      (let s = getSummary (recordMetric now op (Fin 5) (Fin 100) (Fin 150) pm)
       in totalOperations s = 1 \<and> averageExecutionTime s = Fin 5 \<and>
          totalMemoryUsed s = Fin 50 \<and> peakMemoryUsage s = Fin 150)) \<and>
   (metrics pm = metrics pm' \<longrightarrow> getSummary pm = getSummary pm')"
  by (simp add: getSummary_def recordMetric_def Let_def js_sub_def Math_max_def)

theorem getSummary_empty_single_pure_witness:
  "metrics new_PerformanceMonitor = [] \<and>
   getSummary new_PerformanceMonitor =
     \<lparr>totalOperations = 0, averageExecutionTime = Fin 0, totalMemoryUsed = Fin 0,
      peakMemoryUsage = Fin 0, operations = None\<rparr> \<and>
   totalOperations (getSummary (recordMetric 7 ''demo'' (Fin 5) (Fin 100) (Fin 150)
      new_PerformanceMonitor)) = 1 \<and>
   averageExecutionTime (getSummary (recordMetric 7 ''demo'' (Fin 5) (Fin 100) (Fin 150)
      new_PerformanceMonitor)) = Fin 5 \<and>
   totalMemoryUsed (getSummary (recordMetric 7 ''demo'' (Fin 5) (Fin 100) (Fin 150)
      new_PerformanceMonitor)) = Fin 50 \<and>
   peakMemoryUsage (getSummary (recordMetric 7 ''demo'' (Fin 5) (Fin 100) (Fin 150)
      new_PerformanceMonitor)) = Fin 150 \<and>
   metrics new_PerformanceMonitor = metrics (new_PerformanceMonitor\<lparr>isMonitoring := True\<rparr>) \<and>
   getSummary new_PerformanceMonitor = getSummary (new_PerformanceMonitor\<lparr>isMonitoring := True\<rparr>)"
  using getSummary_empty_single_pure
    [of new_PerformanceMonitor 7 "''demo''" "new_PerformanceMonitor\<lparr>isMonitoring := True\<rparr>"]
  by (simp add: new_PerformanceMonitor_def Let_def getSummary_def)

section \<open>Properties of the periodic sampler\<close>

lemma sampler_inv_start: "sampler_inv s \<Longrightarrow> sampler_inv (start s)"
  by (cases s) (auto simp: sampler_inv_def start_def setInterval_def split: option.splits)

lemma sampler_inv_stop: "sampler_inv s \<Longrightarrow> sampler_inv (stop s)"
  by (cases s)
    (auto simp: sampler_inv_def stop_def clearInterval_def truthy_def split: option.splits)

lemma reachable_inv: "reachable s \<Longrightarrow> sampler_inv s"
proof (induction rule: reachable.induct)
  case r_init
  show ?case by (simp add: sampler_inv_def new_PerformanceMonitor_def)
next
  case (r_start s)
  then show ?case by (simp add: sampler_inv_start)
next
  case (r_stop s)
  then show ?case by (simp add: sampler_inv_stop)
next
  case (r_record pm ts c)
  then show ?case
    by (simp add: sampler_inv_def record_call_def recordMetric_def Let_def)
next
  case (r_clear pm ts)
  then show ?case by (simp add: sampler_inv_def clear_def)
qed

text \<open>
  C10. In every reachable state of the monitor and its timers: \<open>start\<close> while monitoring
  changes nothing, \<open>stop\<close> while not monitoring changes nothing, a second \<open>start\<close> or
  \<open>stop\<close> in a row changes nothing, at most one interval timer is scheduled, and the
  monitoring flag is true exactly when a timer is scheduled, which is then the one held
  in \<open>updateInterval\<close>.
\<close>

theorem start_stop_idempotent:
  assumes "reachable (pm, ts)"
  shows "(isMonitoring pm \<longrightarrow> start (pm, ts) = (pm, ts)) \<and>
         (\<not> isMonitoring pm \<longrightarrow> stop (pm, ts) = (pm, ts)) \<and>
         start (start (pm, ts)) = start (pm, ts) \<and>
         stop (stop (pm, ts)) = stop (pm, ts) \<and>
         length (scheduled ts) \<le> 1 \<and>
         (isMonitoring pm \<longleftrightarrow> scheduled ts \<noteq> []) \<and>
         (isMonitoring pm \<longleftrightarrow> updateInterval pm \<noteq> None) \<and>
         set (scheduled ts) = set_option (updateInterval pm)"
proof -
  have inv: "sampler_inv (pm, ts)" using assms by (rule reachable_inv)
  have a: "isMonitoring pm \<longrightarrow> start (pm, ts) = (pm, ts)"
    by (simp add: start_def)
  have b: "\<not> isMonitoring pm \<longrightarrow> stop (pm, ts) = (pm, ts)"
    by (simp add: stop_def)
  have c: "start (start (pm, ts)) = start (pm, ts)"
    by (simp add: start_def setInterval_def Let_def)
  have d: "stop (stop (pm, ts)) = stop (pm, ts)"
    by (simp add: stop_def)
  have e: "length (scheduled ts) \<le> 1 \<and> (isMonitoring pm \<longleftrightarrow> scheduled ts \<noteq> []) \<and>
         (isMonitoring pm \<longleftrightarrow> updateInterval pm \<noteq> None) \<and>
         set (scheduled ts) = set_option (updateInterval pm)"
    using inv by (auto simp: sampler_inv_def split: option.splits if_splits)
  show ?thesis using a b c d e by blast
qed

theorem start_stop_idempotent_witness:
  "reachable (start fresh_page) \<and> isMonitoring (fst (start fresh_page)) \<and>
   start (start fresh_page) = start fresh_page \<and>
   scheduled (snd (start fresh_page)) = [1] \<and>
   reachable (stop (start fresh_page)) \<and> \<not> isMonitoring (fst (stop (start fresh_page))) \<and>
   stop (stop (start fresh_page)) = stop (start fresh_page) \<and>
   scheduled (snd (stop (start fresh_page))) = []"
proof -
  have r0: "reachable fresh_page" unfolding fresh_page_def by (rule reachable.r_init)
  have r1: "reachable (fst (start fresh_page), snd (start fresh_page))"
    using reachable.r_start [OF r0] by simp
  have r2: "reachable (fst (stop (start fresh_page)), snd (stop (start fresh_page)))"
    using reachable.r_stop [OF reachable.r_start [OF r0]] by simp
  show ?thesis
    using r1 r2 start_stop_idempotent [OF r1] start_stop_idempotent [OF r2]
    by (simp add: fresh_page_def start_def stop_def setInterval_def clearInterval_def
        truthy_def new_PerformanceMonitor_def)
qed

section \<open>Properties of the benchmark\<close>

text \<open>
  C2, as stated, fails: with \<open>iterations = 0\<close> the benchmark does not fail. In the sample
  world it returns a result whose average is \<open>NaN\<close> (0 / 0), whose minimum and maximum
  are \<open>Infinity\<close> and \<open>-Infinity\<close>, and whose list of times is empty.
\<close>

theorem benchmark_zero_iterations_counterexample:
  "benchmark sample_runtime sample_operation 0 0 =
     (Inr \<lparr>averageTime = NaN, minTime = PosInf, maxTime = NegInf,
           br_memoryDelta = Fin 0, br_times = []\<rparr>, 0)"
  by (simp add: benchmark_def sample_runtime_def Math_min_def Math_max_def js_sub_def)

text \<open>
  C2, amended. With \<open>iterations = 0\<close> the benchmark returns a result and does not throw,
  whatever the operation and the world; the result has no time sample; the world is left
  as it was, and the count of invocations of the operation stays at zero.
\<close>

theorem benchmark_zero_iterations:
  "(\<exists>r. benchmark R oper 0 w = (Inr r, w) \<and> br_times r = []) \<and>
   snd (benchmark (counted_runtime R) (counted oper) 0 (0, w)) = (0, w)"
  by (simp add: benchmark_def Let_def)

section \<open>Properties of the demo run\<close>

subsection \<open>What the library calls leave alone\<close>

lemma untouched_refl: "untouched s s"
  by (simp add: untouched_def)

lemma untouched_trans: "untouched s s1 \<Longrightarrow> untouched s1 s2 \<Longrightarrow> untouched s s2"
  by (simp add: untouched_def)

lemma tf_call_untouched: "tf_call E s = (r, s') \<Longrightarrow> untouched s s' \<and> calls s' = Suc (calls s)"
  by (auto simp: tf_call_def untouched_def Let_def split: option.splits)

lemma tf_call_raised: "tf_call E s = (Inl e, s') \<Longrightarrow> raises E (calls s) = Some (message e)"
  by (auto simp: tf_call_def Let_def split: option.splits)

lemma tf_call_ok:
  "raises E (calls s) = None \<Longrightarrow>
     tf_call E s =
       (Inr (length (created s)),
        s\<lparr>calls := Suc (calls s), created := created s @ [length (created s)]\<rparr>)"
  by (simp add: tf_call_def Let_def)

lemma tf_call_throws:
  "raises E (calls s) = Some m \<Longrightarrow> tf_call E s = (Inl (Error m), s\<lparr>calls := Suc (calls s)\<rparr>)"
  by (simp add: tf_call_def Let_def)

lemma shape_step_untouched:
  "shape_step E name acc s = (r, s') \<Longrightarrow> untouched s s' \<and> calls s \<le> calls s'"
  unfolding shape_step_def and_then_def return_def
  by (auto split: prod.splits sum.splits dest!: tf_call_untouched intro: untouched_trans)

lemma shape_step_raised:
  assumes "shape_step E name acc s = (Inl e, s')"
  shows "\<exists>k. calls s \<le> k \<and> raises E k = Some (message e)"
proof (cases "tf_call E s")
  case (Pair r1 s1)
  show ?thesis
  proof (cases r1)
    case (Inl e1)
    with Pair assms have "tf_call E s = (Inl e, s')"
      by (simp add: shape_step_def and_then_def)
    then have "raises E (calls s) = Some (message e)" by (rule tf_call_raised)
    then show ?thesis by blast
  next
    case (Inr before)
    from Pair have c1: "calls s1 = Suc (calls s)" using tf_call_untouched by blast
    from Pair Inr assms have "tf_call E s1 = (Inl e, s')"
      by (auto simp: shape_step_def and_then_def return_def split: prod.splits sum.splits)
    then have "raises E (calls s1) = Some (message e)" by (rule tf_call_raised)
    with c1 have "calls s \<le> Suc (calls s) \<and> raises E (Suc (calls s)) = Some (message e)"
      by simp
    then show ?thesis by blast
  qed
qed


lemma shape_steps_untouched:
  "shape_steps E names acc s = (r, s') \<Longrightarrow> untouched s s' \<and> calls s \<le> calls s'"
proof (induction names arbitrary: acc s)
  case Nil
  then show ?case by (auto simp: return_def untouched_refl)
next
  case (Cons name names)
  show ?case
  proof (cases "shape_step E name acc s")
    case (Pair r1 s1)
    then have u1: "untouched s s1 \<and> calls s \<le> calls s1" by (rule shape_step_untouched)
    show ?thesis
    proof (cases r1)
      case (Inl e)
      with Pair Cons.prems u1 show ?thesis by (auto simp: and_then_def)
    next
      case (Inr acc1)
      with Pair Cons.prems have "shape_steps E names acc1 s1 = (r, s')"
        by (simp add: and_then_def)
      then have "untouched s1 s' \<and> calls s1 \<le> calls s'" by (rule Cons.IH)
      with u1 show ?thesis by (auto intro: untouched_trans)
    qed
  qed
qed

lemma shape_steps_raised:
  "shape_steps E names acc s = (Inl e, s') \<Longrightarrow>
     \<exists>k. calls s \<le> k \<and> raises E k = Some (message e)"
proof (induction names arbitrary: acc s)
  case Nil
  then show ?case by (simp add: return_def)
next
  case (Cons name names)
  show ?case
  proof (cases "shape_step E name acc s")
    case (Pair r1 s1)
    show ?thesis
    proof (cases r1)
      case (Inl e1)
      with Pair Cons.prems have "shape_step E name acc s = (Inl e, s')"
        by (simp add: and_then_def)
      then show ?thesis by (rule shape_step_raised)
    next
      case (Inr acc1)
      with Pair Cons.prems have "shape_steps E names acc1 s1 = (Inl e, s')"
        by (simp add: and_then_def)
      then obtain k where "calls s1 \<le> k" "raises E k = Some (message e)"
        using Cons.IH by blast
      moreover have "calls s \<le> calls s1" using Pair shape_step_untouched by blast
      ultimately show ?thesis by (meson le_trans)
    qed
  qed
qed


lemma updateChart_untouched:
  "updateChart E t s = (r, s') \<Longrightarrow> untouched s s' \<and> created s' = created s"
  by (auto simp: updateChart_def untouched_def Let_def split: option.splits)

lemma updateChart_raised:
  "updateChart E t s = (Inl e, s') \<Longrightarrow> \<exists>k. calls s \<le> k \<and> raises E k = Some (message e)"
  by (auto simp: updateChart_def Let_def split: option.splits)

lemma updateChart_ok:
  assumes "raises E (calls s) = None"
  shows "\<exists>s'. updateChart E t s = (Inr (), s') \<and> created s' = created s \<and>
              disposeLog s' = disposeLog s"
  using assms by (cases "chart s") (simp_all add: updateChart_def Let_def)

lemma addResult_results:
  "addResult E t c s = (r, s') \<Longrightarrow>
     r = Inr () \<and>
     results s' = results s @ [\<lparr>title = t, content = c, re_timestamp = new_Date E s\<rparr>] \<and>
     monitor s' = monitor s \<and> created s' = created s \<and> disposeLog s' = disposeLog s"
  by (auto simp: addResult_def updateResults_def Let_def split: option.splits)

lemma safeDispose_frame:
  "results (safeDispose ts s) = results s \<and> monitor (safeDispose ts s) = monitor s \<and>
   created (safeDispose ts s) = created s \<and> calls (safeDispose ts s) = calls s"
  unfolding safeDispose_def
  by (induction ts arbitrary: s) (auto simp: dispose_def split: option.splits)

lemma safeDispose_fresh:
  "distinct hs \<Longrightarrow> set hs \<inter> set (disposeLog e) = {} \<Longrightarrow>
     safeDispose (map Some hs) e = e\<lparr>disposeLog := disposeLog e @ hs\<rparr>"
proof (induction hs arbitrary: e)
  case Nil
  show ?case by (simp add: safeDispose_def)
next
  case (Cons h hs)
  let ?e1 = "e\<lparr>disposeLog := disposeLog e @ [h]\<rparr>"
  have "safeDispose (map Some (h # hs)) e = safeDispose (map Some hs) ?e1"
    using Cons.prems by (simp add: safeDispose_def isDisposed_def dispose_def)
  also have "\<dots> = ?e1\<lparr>disposeLog := disposeLog ?e1 @ hs\<rparr>"
    using Cons.prems by (intro Cons.IH) auto
  finally show ?case by simp
qed

subsection \<open>The try block\<close>

lemma shape_finish_cases:
  assumes "shape_finish E st acc s = (r, s')"
  shows "(\<exists>e. r = Inl e \<and> untouched s s' \<and> created s' = created s \<and>
             (\<exists>k. calls s \<le> k \<and> raises E k = Some (message e))) \<or>
         (r = Inr () \<and> monitor s' = monitor s \<and> created s' = created s \<and>
          (\<exists>sd stamp. results s' =
             results s @ [\<lparr>title = ''Shape Operations'',
                            content = fst acc @ closing_lines E st sd,
                            re_timestamp = stamp\<rparr>]))"
proof (cases "updateChart E (last (snd acc)) s")
  case (Pair r1 s1)
  then have u1: "untouched s s1" "created s1 = created s"
    using updateChart_untouched by blast+
  show ?thesis
  proof (cases r1)
    case (Inl e)
    with Pair assms have "r = Inl e" "s' = s1"
      by (simp_all add: shape_finish_def and_then_def)
    moreover from Pair Inl have "\<exists>k. calls s \<le> k \<and> raises E k = Some (message e)"
      using updateChart_raised by blast
    ultimately show ?thesis using u1 by blast
  next
    case (Inr u)
    let ?sd = "safeDispose (map Some (snd acc)) s1"
    from Pair Inr assms have
      a: "addResult E ''Shape Operations'' (fst acc @ closing_lines E st ?sd) ?sd = (r, s')"
      by (simp add: shape_finish_def and_then_def)
    from addResult_results [OF a] u1 safeDispose_frame [of "map Some (snd acc)" s1]
    have "r = Inr () \<and> monitor s' = monitor s \<and> created s' = created s \<and>
          results s' = results s @ [\<lparr>title = ''Shape Operations'',
                            content = fst acc @ closing_lines E st ?sd,
                            re_timestamp = new_Date E ?sd\<rparr>]"
      by (simp add: untouched_def)
    then show ?thesis by blast
  qed
qed

lemma shape_try_Inl:
  assumes "shape_try E st s = (Inl e, s')"
  shows "untouched s s' \<and> (\<exists>k. calls s \<le> k \<and> raises E k = Some (message e))"
proof (cases "shape_steps E shape_ops (''=== TENSOR SHAPE OPERATIONS ==='' @ nl @ nl, []) s")
  case (Pair r1 s1)
  have u1: "untouched s s1 \<and> calls s \<le> calls s1"
    using Pair by (rule shape_steps_untouched)
  show ?thesis
  proof (cases r1)
    case (Inl e1)
    with Pair assms have eq: "e1 = e" "s1 = s'" by (simp_all add: shape_try_def and_then_def)
    with Pair Inl shape_steps_raised [of E shape_ops _ s e s'] u1 show ?thesis by simp
  next
    case (Inr acc)
    with Pair assms have "shape_finish E st acc s1 = (Inl e, s')"
      by (simp add: shape_try_def and_then_def)
    then have "untouched s1 s' \<and> (\<exists>k. calls s1 \<le> k \<and> raises E k = Some (message e))"
      using shape_finish_cases by blast
    with u1 show ?thesis by (meson le_trans untouched_trans)
  qed
qed


subsection \<open>The run in which no library call throws\<close>

lemma shape_step_ok:
  assumes "raises E (calls s) = None" and "raises E (Suc (calls s)) = None"
  shows "\<exists>c. shape_step E name acc s =
           (Inr (c, snd acc @ [length (created s), Suc (length (created s))]),
            s\<lparr>calls := calls s + 2,
              created := created s @ [length (created s), Suc (length (created s))]\<rparr>)"
  using assms by (simp add: shape_step_def and_then_def return_def tf_call_ok)

lemma shape_steps_ok:
  assumes "\<forall>k. calls s \<le> k \<longrightarrow> raises E k = None"
  shows "\<exists>c. shape_steps E names acc s =
           (Inr (c, snd acc @ [length (created s)..<length (created s) + 2 * length names]),
            s\<lparr>calls := calls s + 2 * length names,
              created := created s @
                [length (created s)..<length (created s) + 2 * length names]\<rparr>)"
  using assms
proof (induction names arbitrary: acc s)
  case Nil
  show ?case by (cases acc) (simp add: return_def)
next
  case (Cons name names)
  let ?n = "length (created s)"
  let ?s1 = "s\<lparr>calls := calls s + 2, created := created s @ [?n, Suc ?n]\<rparr>"
  from Cons.prems have r: "raises E (calls s) = None" "raises E (Suc (calls s)) = None"
    by simp_all
  from shape_step_ok [OF r] obtain c1 where
    st: "shape_step E name acc s = (Inr (c1, snd acc @ [?n, Suc ?n]), ?s1)" by blast
  have "\<forall>k. calls ?s1 \<le> k \<longrightarrow> raises E k = None" using Cons.prems by simp
  from Cons.IH [OF this, of "(c1, snd acc @ [?n, Suc ?n])"] obtain c where
    rest: "shape_steps E names (c1, snd acc @ [?n, Suc ?n]) ?s1 =
       (Inr (c, snd acc @ [?n, Suc ?n] @ [?n + 2..<?n + 2 + 2 * length names]),
        ?s1\<lparr>calls := calls ?s1 + 2 * length names,
            created := created ?s1 @ [?n + 2..<?n + 2 + 2 * length names]\<rparr>)"
    by auto
  have up: "[?n, Suc ?n] @ [?n + 2..<?n + 2 + 2 * length names] =
            [?n..<?n + 2 * length (name # names)]"
    by (simp add: upt_rec)
  show ?case
    using st rest up by (simp add: and_then_def add.assoc)
qed

lemma shape_finish_ok:
  assumes "raises E (calls s) = None"
    and "distinct (snd acc)" and "set (snd acc) \<inter> set (disposeLog s) = {}"
  shows "\<exists>s'. shape_finish E st acc s = (Inr (), s') \<and> created s' = created s \<and>
              disposeLog s' = disposeLog s @ snd acc"
proof -
  from updateChart_ok [OF assms(1)] obtain s1 where
    u: "updateChart E (last (snd acc)) s = (Inr (), s1)" and
    c1: "created s1 = created s" and d1: "disposeLog s1 = disposeLog s"
    by blast
  have s2: "safeDispose (map Some (snd acc)) s1 = s1\<lparr>disposeLog := disposeLog s1 @ snd acc\<rparr>"
    using assms(2,3) d1 by (intro safeDispose_fresh) simp_all
  show ?thesis
    using u s2 c1 d1
    by (simp add: shape_finish_def and_then_def Let_def addResult_def updateResults_def
        split: option.splits)
qed

text \<open>
  When no library call throws, in a session whose disposed tensors are among the created
  ones, the try block completes; it creates eighteen tensors and disposes exactly those, in
  the order of their creation.
\<close>

lemma shape_try_ok:
  assumes nr: "\<forall>k. calls s \<le> k \<longrightarrow> raises E k = None"
    and wf: "\<forall>h \<in> set (disposeLog s). h < length (created s)"
  shows "\<exists>s'. shape_try E st s = (Inr (), s') \<and>
              created s' = created s @ [length (created s)..<length (created s) + 18] \<and>
              disposeLog s' = disposeLog s @ [length (created s)..<length (created s) + 18]"
proof -
  let ?n = "length (created s)"
  let ?new = "[?n..<?n + 18]"
  let ?s1 = "s\<lparr>calls := calls s + 18, created := created s @ ?new\<rparr>"
  from shape_steps_ok [OF nr, of shape_ops "(''=== TENSOR SHAPE OPERATIONS ==='' @ nl @ nl, [])"]
  obtain c where
    steps: "shape_steps E shape_ops (''=== TENSOR SHAPE OPERATIONS ==='' @ nl @ nl, []) s =
              (Inr (c, ?new), ?s1)"
    by (auto simp: shape_ops_def)
  have r1: "raises E (calls ?s1) = None" using nr by simp
  have fresh: "set (snd (c, ?new)) \<inter> set (disposeLog ?s1) = {}"
    using wf by auto
  have dist: "distinct (snd (c, ?new))" by simp
  from shape_finish_ok [OF r1 dist fresh, of st] obtain s' where
    "shape_finish E st (c, ?new) ?s1 = (Inr (), s')" "created s' = created ?s1"
    "disposeLog s' = disposeLog ?s1 @ ?new"
    by auto
  with steps show ?thesis by (simp add: shape_try_def and_then_def)
qed

lemma count_list_distinct: "distinct xs \<Longrightarrow> x \<in> set xs \<Longrightarrow> count_list xs x = 1"
  by (induction xs) auto

text \<open>
  So on the path without a failure every tensor that the run creates is disposed exactly
  once by the end of the run.
\<close>

lemma runTensorShape_success_releases_once:
  assumes nr: "\<forall>k. calls s \<le> k \<longrightarrow> raises E k = None"
    and wf: "\<forall>h \<in> set (disposeLog s). h < length (created s)"
    and new: "h \<in> set (created (snd (runTensorShape E s))) - set (created s)"
  shows "count_list (disposeLog (snd (runTensorShape E s))) h = 1"
proof -
  let ?n = "length (created s)"
  from shape_try_ok [OF nr wf, of "performance_now E s"] obtain s' where
    t: "shape_try E (performance_now E s) s = (Inr (), s')" and
    c: "created s' = created s @ [?n..<?n + 18]" and
    d: "disposeLog s' = disposeLog s @ [?n..<?n + 18]"
    by blast
  have run: "runTensorShape E s = (Inr (), s')" using t by (simp add: runTensorShape_def)
  from new run c have h: "h \<in> set [?n..<?n + 18]" by auto
  then have "h \<notin> set (disposeLog s)" using wf by auto
  then have "count_list (disposeLog s) h = 0" by (simp add: count_list_0_iff)
  moreover have "count_list [?n..<?n + 18] h = 1"
    using h by (intro count_list_distinct) simp_all
  ultimately show ?thesis using run d by simp
qed

text \<open>
  On the path with a failure nothing is disposed: the call of \<open>safeDispose\<close> is the last
  but one statement of the try block, and the catch clause disposes nothing.
\<close>

lemma runTensorShape_failure_releases_nothing:
  assumes "fst (shape_try E (performance_now E s) s) = Inl e"
  shows "disposeLog (snd (runTensorShape E s)) = disposeLog s"
proof -
  obtain s1 where t: "shape_try E (performance_now E s) s = (Inl e, s1)"
    using assms by (cases "shape_try E (performance_now E s) s") auto
  then have u: "untouched s s1" using shape_try_Inl by blast
  obtain r s2 where
    a: "addResult E ''Error'' (''Error in shape operations: '' @ message e) s1 = (r, s2)"
    by (cases "addResult E ''Error'' (''Error in shape operations: '' @ message e) s1") auto
  from addResult_results [OF a] u t a show ?thesis
    by (simp add: runTensorShape_def untouched_def)
qed

subsection \<open>Two sample runs\<close>

lemma sample_env_simps:
  "raises (sample_env f) k = (if f k then Some ''boom'' else None)"
  "performance_now (sample_env f) s = Fin (real (calls s))"
  "memory_numBytes (sample_env f) s = Fin 0"
  "new_Date (sample_env f) s = int (calls s)"
  "tensor_toString (sample_env f) h = ''Tensor''"
  "toFixed2 (js (sample_env f)) x = ''0.00''"
  by (simp_all add: sample_env_def sample_builtins_def)

lemma new_session_simps:
  "calls new_session = 0" "created new_session = []" "disposeLog new_session = []"
  "results new_session = []" "chart new_session = Some []"
  "resultsElement new_session = Some []" "monitor new_session = new_PerformanceMonitor"
  by (simp_all add: new_session_def)

text \<open>
  The library call number 4 (counted from 0) throws: it is the creation of the tensor of
  the third pair. The four tensors of the first two pairs exist by then.
\<close>

lemma shape_steps_third_throws:
  "shape_steps failing_env shape_ops acc new_session =
     (Inl (Error ''boom''), new_session\<lparr>calls := 5, created := [0, 1, 2, 3]\<rparr>)"
  by (simp add: failing_env_def shape_ops_def and_then_def shape_step_def return_def
      tf_call_ok tf_call_throws sample_env_simps new_session_simps)

lemma shape_try_third_throws:
  "shape_try failing_env st new_session =
     (Inl (Error ''boom''), new_session\<lparr>calls := 5, created := [0, 1, 2, 3]\<rparr>)"
  by (simp add: shape_try_def and_then_def shape_steps_third_throws)

lemma runTensorShape_third_throws:
  "runTensorShape failing_env new_session =
     (Inr (),
      new_session\<lparr>calls := 5, created := [0, 1, 2, 3],
        results := [\<lparr>title = ''Error'', content = ''Error in shape operations: boom'',
                     re_timestamp = 5\<rparr>],
        resultsElement :=
          Some (''=== Error ==='' @ nl @ ''Error in shape operations: boom'' @ nl @ nl)\<rparr>)"
  by (simp add: runTensorShape_def shape_try_third_throws addResult_def
      updateResults_def formatResults_def new_session_simps)
    (simp add: failing_env_def sample_env_simps)


section \<open>The claims about the demo run\<close>

text \<open>
  C3, at a failing run. The claim asks that every tensor acquired during a run is released
  exactly once on the failure path too. In the run of \<open>runTensorShape\<close> in which the fifth
  library call throws, the four tensors created before it (0, 1, 2 and 3) are still not
  disposed when the run has finished: the dispose log is empty.
\<close>

theorem runTensorShape_failure_leaks:
  "fst (runTensorShape failing_env new_session) = Inr () \<and>
   created (snd (runTensorShape failing_env new_session)) = [0, 1, 2, 3] \<and>
   disposeLog (snd (runTensorShape failing_env new_session)) = [] \<and>
   count_list (disposeLog (snd (runTensorShape failing_env new_session))) 0 = 0"
  by (simp add: runTensorShape_third_throws new_session_simps)






text \<open>
  C7. \<open>formatResults\<close> returns a string and changes nothing, and the string depends on
  the list of results only: in two sessions with the same results it is the same. After
  \<open>clearResults\<close> it is the empty string.
\<close>

theorem formatResults_pure_and_clear:
  "(results s = results s' \<longrightarrow> formatResults s = formatResults s') \<and>
   formatResults (clearResults s) = []"
  by (simp add: formatResults_def clearResults_def updateResults_def split: option.splits)

theorem formatResults_pure_and_clear_witness:
  "results (snd (runTensorShape failing_env new_session)) =
     results ((snd (runTensorShape failing_env new_session))\<lparr>chart := None\<rparr>) \<and>
   formatResults (snd (runTensorShape failing_env new_session)) =
     ''=== Error ==='' @ nl @ ''Error in shape operations: boom'' @ nl @ nl \<and>
   formatResults ((snd (runTensorShape failing_env new_session))\<lparr>chart := None\<rparr>) =
     ''=== Error ==='' @ nl @ ''Error in shape operations: boom'' @ nl @ nl \<and>
   formatResults (clearResults (snd (runTensorShape failing_env new_session))) = []"
  using formatResults_pure_and_clear
    [of "snd (runTensorShape failing_env new_session)"
        "(snd (runTensorShape failing_env new_session))\<lparr>chart := None\<rparr>"]
  by (simp add: runTensorShape_third_throws formatResults_def)

section \<open>Properties of the exports\<close>

lemma build_report_none:
  assumes "pd = Undefined \<or> pd = Null"
  shows "build_report now' rs pd =
     Inr \<lparr>rp_title = ''TensorFlow.js Learning Platform Report'', rp_timestamp = now',
          rp_results = rs, rp_performance = Null, rp_totalResults = length rs,
          rp_totalOperations = count_operations rs, rp_averageExecutionTime = Num (Fin 0)\<rparr>"
  using assms by (auto simp: build_report_def)

lemma replace_colon_dot_props:
  "length (replace_colon_dot s) = length s \<and>
   CHR '':'' \<notin> set (replace_colon_dot s) \<and> CHR ''.'' \<notin> set (replace_colon_dot s)"
  by (auto simp: replace_colon_dot_def)

lemma exportCSV_filename: "exportCSV B data name = Inr (Some d) \<Longrightarrow> filename d = name"
  by (auto simp: exportCSV_def on_value_def Let_def split: list.splits sum.splits)

lemma exportTextReport_filename: "exportTextReport B rp name = Inr d \<Longrightarrow> filename d = name"
  by (auto simp: exportTextReport_def on_value_def split: sum.splits)

lemma exportHTMLReport_filename: "exportHTMLReport B rp name = Inr d \<Longrightarrow> filename d = name"
  by (auto simp: exportHTMLReport_def on_value_def split: sum.splits)

lemma sample_stamp: "file_timestamp sample_builtins now = ''2026-11-03T05-59-00-000Z''"
  by (simp add: file_timestamp_def replace_colon_dot_def sample_builtins_def)

lemma sample_builtins_simps:
  "toFixed2 sample_builtins x = ''0.00''"
  "Date_toString sample_builtins d = ''Tue Nov 03 2026''"
  "ToString sample_builtins v = ''value''"
  by (simp_all add: sample_builtins_def)

lemma build_sample_report: "build_report 1 two_results Null = Inr sample_report"
  by (simp add: build_report_def sample_report_def two_results_def count_operations_def)

text \<open>\<open>str_includes\<close> is occurrence as a contiguous part.\<close>

lemma str_includes_iff: "str_includes s p \<longleftrightarrow> (\<exists>a b. s = a @ p @ b)"
proof (induction s)
  case Nil
  show ?case by auto
next
  case (Cons c cs)
  have "take (length p) (c # cs) = p \<longleftrightarrow> (\<exists>b. c # cs = p @ b)"
    by (metis append_eq_conv_conj append_take_drop_id)
  moreover have "(\<exists>a b. c # cs = a @ p @ b) \<longleftrightarrow>
                 (\<exists>b. c # cs = p @ b) \<or> (\<exists>a b. cs = a @ p @ b)"
  proof
    assume "\<exists>a b. c # cs = a @ p @ b"
    then obtain a b where ab: "c # cs = a @ p @ b" by blast
    show "(\<exists>b. c # cs = p @ b) \<or> (\<exists>a b. cs = a @ p @ b)"
    proof (cases a)
      case Nil
      with ab show ?thesis by auto
    next
      case (Cons x a')
      with ab have "cs = a' @ p @ b" by simp
      then show ?thesis by blast
    qed
  next
    assume "(\<exists>b. c # cs = p @ b) \<or> (\<exists>a b. cs = a @ p @ b)"
    then show "\<exists>a b. c # cs = a @ p @ b"
    proof
      assume "\<exists>b. c # cs = p @ b"
      then obtain b where "c # cs = [] @ p @ b" by auto
      then show ?thesis by blast
    next
      assume "\<exists>a b. cs = a @ p @ b"
      then obtain a b where "c # cs = (c # a) @ p @ b" by auto
      then show ?thesis by blast
    qed
  qed
  ultimately show ?case using Cons.IH by simp
qed

text \<open>
  C8. When \<open>exportReport\<close> is called without performance data (the argument is
  \<open>undefined\<close> or \<open>null\<close>), for any list of results and any format string, the
  report is built with \<open>performance\<close> equal to \<open>null\<close> and the call returns a download
  and does not throw. For \<open>html\<close> and for \<open>txt\<close> the performance block is the empty
  string, and the text is the head, the blocks of the results, and for \<open>html\<close> the
  closing tags. For every other format the file is the JSON of the report, in which
  \<open>results\<close> is an array as long as the list of results and \<open>performance\<close> is
  \<open>null\<close>.
\<close>

theorem exportReport_without_performance:
  assumes "pd = Undefined \<or> pd = Null"
  shows "\<exists>rp d. build_report now' rs pd = Inr rp \<and> rp_performance rp = Null \<and>
           rp_results rp = rs \<and>
           exportReport B now now' rs pd format = Inr d \<and>
           (format = ''html'' \<longrightarrow>
              html_performance B rp = Inr [] \<and>
              (\<exists>head. html_head B rp = Inr head \<and>
                payload d = Text (head @ concat (map (html_result B) rs) @
                                  nl @ ''    '' @ nl @ ''    '' @ html_tail))) \<and>
           (format = ''txt'' \<longrightarrow>
              text_performance B rp = Inr [] \<and>
              (\<exists>head. text_head B rp = Inr head \<and>
                payload d = Text (head @ concat (map (text_result B) rs)))) \<and>
           (format \<noteq> ''html'' \<and> format \<noteq> ''txt'' \<longrightarrow>
              (\<exists>v items. payload d = JsonText v \<and>
                 get_prop v ''results'' = Inr (Arr items) \<and> length items = length rs \<and>
                 get_prop v ''performance'' = Inr Null))"
  using build_report_none [OF assms, of now' rs]
  by (simp add: exportReport_def on_value_def exportHTMLReport_def exportTextReport_def
      html_head_def text_head_def html_performance_def text_performance_def
      exportJSON_def report_value_def Let_def)

theorem exportReport_without_performance_witness:
  "((Null::jsval) = Undefined \<or> (Null::jsval) = Null) \<and>
   build_report 1 two_results Null = Inr sample_report \<and>
   exportReport sample_builtins 0 1 two_results Null ''json'' =
     Inr \<lparr>payload = JsonText (report_value sample_report), mime = ''application/json'',
          filename = ''report-2026-11-03T05-59-00-000Z.json''\<rparr> \<and>
   get_prop (report_value sample_report) ''results'' =
     Inr (Arr [result_value (two_results ! 0), result_value (two_results ! 1)]) \<and>
   get_prop (report_value sample_report) ''performance'' = Inr Null \<and>
   text_performance sample_builtins sample_report = Inr [] \<and>
   exportReport sample_builtins 0 1 two_results Null ''txt'' =
     Inr \<lparr>payload = Text (join nl
            [''TensorFlow.js Learning Platform Report'',
             ''Generated: Tue Nov 03 2026'',
             ''Total Results: value'',
             ''Total Operations: value'',
             ''Average Execution Time: 0.00ms'',
             '''',
             ''=== A ==='',
             ''Timestamp: Tue Nov 03 2026'',
             ''Execution time: 1.00ms'',
             '''',
             ''=== Error ==='',
             ''Timestamp: Tue Nov 03 2026'',
             ''boom'',
             '''',
             '''']),
          mime = ''text/plain'', filename = ''report-2026-11-03T05-59-00-000Z.txt''\<rparr> \<and>
   html_performance sample_builtins sample_report = Inr [] \<and>
   map_sum id filename (exportReport sample_builtins 0 1 two_results Null ''html'') =
     Inr ''report-2026-11-03T05-59-00-000Z.html''"
proof -
  have h: "(Null::jsval) = Undefined \<or> (Null::jsval) = Null" by simp
  note t = exportReport_without_performance
    [where pd = Null and now' = 1 and rs = two_results and B = sample_builtins and now = 0]
  have j: "exportReport sample_builtins 0 1 two_results Null ''json'' =
     Inr \<lparr>payload = JsonText (report_value sample_report), mime = ''application/json'',
          filename = ''report-2026-11-03T05-59-00-000Z.json''\<rparr>"
    by (simp add: exportReport_def build_sample_report on_value_def sample_stamp exportJSON_def)
  have g: "get_prop (report_value sample_report) ''results'' =
       Inr (Arr [result_value (two_results ! 0), result_value (two_results ! 1)])"
    by (simp add: report_value_def sample_report_def two_results_def)
  have x: "exportReport sample_builtins 0 1 two_results Null ''txt'' =
     Inr \<lparr>payload = Text (join nl
            [''TensorFlow.js Learning Platform Report'',
             ''Generated: Tue Nov 03 2026'',
             ''Total Results: value'',
             ''Total Operations: value'',
             ''Average Execution Time: 0.00ms'',
             '''',
             ''=== A ==='',
             ''Timestamp: Tue Nov 03 2026'',
             ''Execution time: 1.00ms'',
             '''',
             ''=== Error ==='',
             ''Timestamp: Tue Nov 03 2026'',
             ''boom'',
             '''',
             '''']),
          mime = ''text/plain'', filename = ''report-2026-11-03T05-59-00-000Z.txt''\<rparr>"
    unfolding exportReport_def Let_def build_sample_report
    by (simp add: on_value_def sample_stamp
        exportTextReport_def text_head_def text_performance_def text_result_def
        sample_builtins_simps show_nat_def sample_report_def two_results_def)
  have m: "map_sum id filename (exportReport sample_builtins 0 1 two_results Null ''html'') =
     Inr ''report-2026-11-03T05-59-00-000Z.html''"
    unfolding exportReport_def Let_def build_sample_report
    by (simp add: on_value_def sample_stamp
        exportHTMLReport_def html_head_def html_performance_def
        sample_builtins_simps sample_report_def)
  from t [OF h, of "''txt''"] build_sample_report
  have tp: "text_performance sample_builtins sample_report = Inr []" by auto
  from t [OF h, of "''html''"] build_sample_report
  have hp: "html_performance sample_builtins sample_report = Inr []" by auto
  from t [OF h, of "''json''"] build_sample_report j
  have p: "get_prop (report_value sample_report) ''performance'' = Inr Null" by auto
  show ?thesis
    using h build_sample_report j g p tp hp x m by simp
qed

text \<open>
  C9, as stated, fails: \<open>exportResults\<close> of the demo page names its file
  \<open>tensor-operations-results.json\<close>, whatever the clock shows; the name does not
  contain the timestamp of the sample clock.
\<close>

theorem exportResults_filename_counterexample:
  "filename (exportResults new_session) = ''tensor-operations-results.json'' \<and>
   \<not> str_includes (filename (exportResults new_session)) (file_timestamp sample_builtins 0)"
  by (simp add: exportResults_def sample_stamp)

text \<open>
  C9, amended. The two export functions that name their file themselves embed the
  timestamp: a file from \<open>exportReport\<close> is named \<open>report-\<close>, the timestamp, and
  \<open>.html\<close>, \<open>.txt\<close> or \<open>.json\<close>; a file from \<open>exportPerformanceData\<close> is named
  \<open>performance-\<close>, the timestamp, and \<open>.csv\<close> or \<open>.json\<close>. The timestamp is the ISO
  string of the date of the call with every colon and every full stop replaced by a hyphen,
  so neither occurs in it. \<open>exportResults\<close> uses a fixed name.
\<close>

theorem timestamped_export_filenames:
  "(exportReport B now now' rs pd format = Inr d \<longrightarrow>
      filename d = ''report-'' @ file_timestamp B now @
        (if format = ''html'' then ''.html'' else if format = ''txt'' then ''.txt''
         else ''.json'')) \<and>
   (exportPerformanceData B now pd format = Inr (Some d') \<longrightarrow>
      filename d' = ''performance-'' @ file_timestamp B now @
        (if format = ''csv'' then ''.csv'' else ''.json'')) \<and>
   file_timestamp B now =
     map (\<lambda>c. if c = CHR '':'' \<or> c = CHR ''.'' then CHR ''-'' else c) (toISOString B now) \<and>
   CHR '':'' \<notin> set (file_timestamp B now) \<and> CHR ''.'' \<notin> set (file_timestamp B now) \<and>
   filename (exportResults s) = ''tensor-operations-results.json''"
proof -
  have a: "exportReport B now now' rs pd format = Inr d \<longrightarrow>
      filename d = ''report-'' @ file_timestamp B now @
        (if format = ''html'' then ''.html'' else if format = ''txt'' then ''.txt''
         else ''.json'')"
    by (auto simp: exportReport_def on_value_def Let_def exportJSON_def
        dest: exportTextReport_filename exportHTMLReport_filename split: sum.splits if_splits)
  have b: "exportPerformanceData B now pd format = Inr (Some d') \<longrightarrow>
      filename d' = ''performance-'' @ file_timestamp B now @
        (if format = ''csv'' then ''.csv'' else ''.json'')"
    by (auto simp: exportPerformanceData_def on_value_def Let_def exportJSON_def
        dest: exportCSV_filename split: sum.splits if_splits)
  have c: "file_timestamp B now =
     map (\<lambda>c. if c = CHR '':'' \<or> c = CHR ''.'' then CHR ''-'' else c) (toISOString B now)"
    by (simp add: file_timestamp_def replace_colon_dot_def)
  have d: "CHR '':'' \<notin> set (file_timestamp B now) \<and> CHR ''.'' \<notin> set (file_timestamp B now)"
    by (simp add: file_timestamp_def replace_colon_dot_props)
  have e: "filename (exportResults s) = ''tensor-operations-results.json''"
    by (simp add: exportResults_def)
  show ?thesis using a b c d e by blast
qed

theorem timestamped_export_filenames_witness:
  "exportReport sample_builtins 0 1 two_results Null ''json'' =
     Inr (exportJSON (report_value sample_report) ''report-2026-11-03T05-59-00-000Z.json'') \<and>
   filename (exportJSON (report_value sample_report) ''report-2026-11-03T05-59-00-000Z.json'') =
     ''report-'' @ file_timestamp sample_builtins 0 @ ''.json'' \<and>
   exportPerformanceData sample_builtins 0 one_metric ''csv'' = Inr (Some one_metric_csv) \<and>
   filename one_metric_csv = ''performance-'' @ file_timestamp sample_builtins 0 @ ''.csv'' \<and>
   exportPerformanceData sample_builtins 0 no_metrics ''json'' =
     Inr (Some (exportJSON no_metrics ''performance-2026-11-03T05-59-00-000Z.json'')) \<and>
   filename (exportJSON no_metrics ''performance-2026-11-03T05-59-00-000Z.json'') =
     ''performance-'' @ file_timestamp sample_builtins 0 @ ''.json'' \<and>
   exportPerformanceData sample_builtins 0 no_metrics ''csv'' = Inr None \<and>
   toISOString sample_builtins 0 = ''2026-11-03T05:59:00.000Z'' \<and>
   file_timestamp sample_builtins 0 = ''2026-11-03T05-59-00-000Z''"
proof -
  have r: "exportReport sample_builtins 0 1 two_results Null ''json'' =
     Inr (exportJSON (report_value sample_report) ''report-2026-11-03T05-59-00-000Z.json'')"
    by (simp add: exportReport_def build_sample_report on_value_def sample_stamp)
  have p: "exportPerformanceData sample_builtins 0 one_metric ''csv'' = Inr (Some one_metric_csv)"
    by (simp add: exportPerformanceData_def one_metric_def on_value_def metric_row_def
        exportCSV_def sample_stamp sample_builtins_simps one_metric_csv_def)
  have q: "exportPerformanceData sample_builtins 0 no_metrics ''json'' =
     Inr (Some (exportJSON no_metrics ''performance-2026-11-03T05-59-00-000Z.json''))"
    by (simp add: exportPerformanceData_def sample_stamp)
  have n: "exportPerformanceData sample_builtins 0 no_metrics ''csv'' = Inr None"
    by (simp add: exportPerformanceData_def no_metrics_def on_value_def exportCSV_def)
  have i: "toISOString sample_builtins 0 = ''2026-11-03T05:59:00.000Z''"
    by (simp add: sample_builtins_def)
  from r timestamped_export_filenames
    [where B = sample_builtins and now = 0 and now' = 1 and rs = two_results and pd = Null
       and format = "''json''"
       and d = "exportJSON (report_value sample_report) ''report-2026-11-03T05-59-00-000Z.json''"]
  have f1: "filename (exportJSON (report_value sample_report)
               ''report-2026-11-03T05-59-00-000Z.json'') =
             ''report-'' @ file_timestamp sample_builtins 0 @ ''.json''"
    by simp
  from p timestamped_export_filenames
    [where B = sample_builtins and now = 0 and pd = one_metric and format = "''csv''"
       and d' = one_metric_csv]
  have f2: "filename one_metric_csv =
              ''performance-'' @ file_timestamp sample_builtins 0 @ ''.csv''"
    by simp
  from q timestamped_export_filenames
    [where B = sample_builtins and now = 0 and pd = no_metrics and format = "''json''"
       and d' = "exportJSON no_metrics ''performance-2026-11-03T05-59-00-000Z.json''"]
  have f3: "filename (exportJSON no_metrics ''performance-2026-11-03T05-59-00-000Z.json'') =
              ''performance-'' @ file_timestamp sample_builtins 0 @ ''.json''"
    by simp
  from f1 have s: "file_timestamp sample_builtins 0 = ''2026-11-03T05-59-00-000Z''"
    by (simp add: exportJSON_def)
  show ?thesis
    by (intro conjI) (fact r f1 p f2 q f3 n i s)+
qed

end
